theory Spec2Isabelle
  imports Complex_Main "HOL-Library.AList"
    "HOL-Library.List_Lexorder" "HOL-Library.Product_Lexorder"
begin

section \<open>Trade Raven: data model\<close>

text \<open>
  The bot keeps its state in module-level globals. They are collected in one record and
  every function that reads or writes a global takes the record and returns it updated.
  A dict is the list of its items in insertion order, with distinct keys.

  A player name or player id is a Python \<open>str\<close>, a sequence of Unicode code points: the
  code strips it, counts its characters and compares it character by character, so it is
  a list of code points, each an integer, and \<open>py\<close> writes one from its ASCII text. The
  strings that the code only tests for equality, joins or prints (transaction ids,
  types, statuses, team names, the source label) are of type \<open>string\<close>.

  Player values are parsed with \<open>float\<close> from a column of whole numbers; they are modelled
  as integers, on which the sums and the difference of the source are exact. A timestamp
  is an integer count of microseconds, the resolution of \<open>datetime\<close>.
\<close>

type_synonym pystr = "int list"
type_synonym pid = pystr
type_synonym rid = int
type_synonym tid = "string option"
type_synonym 'v pydict = "(pystr \<times> 'v) list"

abbreviation py :: "string \<Rightarrow> pystr" where
  "py text \<equiv> map of_char text"

datatype error =
  FetchError | DbError | AttributeError | TypeError | KeyError

text \<open>The SQLite file behind \<open>DB_PATH\<close>: the rows of table \<open>players\<close>, or a database
  whose statements raise (no such table, locked or unreadable file).\<close>

datatype store = Unavailable | Players "int pydict"

record bot =
  known_trade_ids :: "tid set"
  ktc_values :: "int pydict"
  ktc_source_used :: string
  user_map :: "(rid \<times> string) list"
  current_bot_week :: int
  db :: store

definition initial_bot :: "store \<Rightarrow> bot" where
  "initial_bot d = \<lparr> known_trade_ids = {}, ktc_values = [], ktc_source_used = ''unknown'',
     user_map = [], current_bot_week = 1, db = d \<rparr>"

definition manual_ktc_overrides :: "pystr pydict" where
  "manual_ktc_overrides =
    [(py ''Ken Walker'', py ''Kenneth Walker III''),
     (py ''DJ Moore'', py ''D.J. Moore''),
     (py ''CMC'', py ''Christian McCaffrey''),
     (py ''JJ'', py ''Justin Jefferson''),
     (py ''Bijan'', py ''Bijan Robinson''),
     (py ''Tyreek'', py ''Tyreek Hill'')]"

section \<open>Week clock\<close>

text \<open>\<open>timedelta.days\<close> of a difference of two timestamps: whole days, rounded down.\<close>

definition timedelta_days :: "int \<Rightarrow> int" where
  "timedelta_days delta = delta div 86400000000"

definition days :: "int \<Rightarrow> int" where
  "days n = n * 86400000000"

text \<open>\<open>update_bot_week\<close>, with \<open>WEEK_2_START_DATE\<close> and \<open>datetime.now(UTC)\<close> as arguments.\<close>

definition update_bot_week :: "int \<Rightarrow> int \<Rightarrow> bot \<Rightarrow> bot" where
  "update_bot_week WEEK_2_START_DATE today s =
     (if today \<ge> WEEK_2_START_DATE then
        let days_passed = timedelta_days (today - WEEK_2_START_DATE)
        in s\<lparr>current_bot_week := 2 + days_passed div 7\<rparr>
      else s)"

definition forceweek :: "int \<Rightarrow> bot \<Rightarrow> bot" where
  "forceweek week s = s\<lparr>current_bot_week := week\<rparr>"

section \<open>Fairness verdict\<close>

text \<open>The footer text of the embed: a fair trade, or the winning team and the margin.\<close>

datatype verdict = Fair | Wins string int

definition result_text :: "string \<Rightarrow> string \<Rightarrow> int \<Rightarrow> int \<Rightarrow> verdict" where
  "result_text team0 team1 v0 v1 =
     (let diff = v0 - v1 in
      if \<bar>diff\<bar> < 200 then Fair
      else let winner = (if diff > 0 then team0 else team1) in Wins winner \<bar>diff\<bar>)"

section \<open>Value store\<close>

text \<open>
  The SQL of the source on table \<open>players\<close>. The column \<open>last_updated\<close> is written and
  never read, and is left out. \<open>like\<close> is SQLite's \<open>LIKE\<close>: \<open>%\<close> (code 37) matches any run
  of characters, \<open>_\<close> (code 95) one character, and letters match without regard to ASCII
  case.
\<close>

definition ascii_lower :: "int \<Rightarrow> int" where
  "ascii_lower c = (if 65 \<le> c \<and> c \<le> 90 then c + 32 else c)"

fun like :: "pystr \<Rightarrow> pystr \<Rightarrow> bool" where
  "like [] s = (s = [])"
| "like (p # ps) [] = (p = 37 \<and> like ps [])"
| "like (p # ps) (c # cs) =
     (if p = 37 then like ps (c # cs) \<or> like (p # ps) cs
      else (p = 95 \<or> ascii_lower p = ascii_lower c) \<and> like ps cs)"

text \<open>\<open>d[k] = v\<close> on a dict that keeps insertion order is \<open>AList.update\<close>; \<open>d.update(e)\<close>
  stores the items of \<open>e\<close> one after the other.\<close>

definition dict_update :: "'v pydict \<Rightarrow> 'v pydict \<Rightarrow> 'v pydict" where
  "dict_update d e = fold (\<lambda>(k, v). AList.update k v) e d"

definition save_ktc_to_db :: "int pydict \<Rightarrow> store \<Rightarrow> error + store" where
  "save_ktc_to_db ktc_dict d =
     (case d of
        Unavailable \<Rightarrow> Inl DbError
      | Players rows \<Rightarrow> Inr (Players (dict_update rows ktc_dict)))"

definition load_ktc_from_db :: "store \<Rightarrow> error + int pydict" where
  "load_ktc_from_db d = (case d of Unavailable \<Rightarrow> Inl DbError | Players rows \<Rightarrow> Inr rows)"

text \<open>The result is the list of names the function prints; it returns nothing.\<close>

definition find_similar_names_in_db :: "pystr \<Rightarrow> store \<Rightarrow> error + pystr list" where
  "find_similar_names_in_db query d =
     (case d of
        Unavailable \<Rightarrow> Inl DbError
      | Players rows \<Rightarrow> Inr (filter (like (py ''%'' @ query @ py ''%'')) (map fst rows)))"

section \<open>Value ingestion\<close>

text \<open>
  \<open>fetch_dp_values\<close> downloads and parses the CSV. Its argument here is what the request
  and the row parsing produce: the exception one of them raised, or the rows as
  (player, value) pairs in file order. The dict comprehension keeps the last value of a
  repeated player.
\<close>

definition fetch_dp_values :: "error + (pystr \<times> int) list \<Rightarrow> error + int pydict" where
  "fetch_dp_values resp =
     (case resp of Inl e \<Rightarrow> Inl e | Inr rows \<Rightarrow> Inr (dict_update [] rows))"

datatype ktc_log = Loaded nat | NoValuesFound | ErrorLoading error

text \<open>
  \<open>update_ktc\<close>. The whole body is inside \<open>try\<close> / \<open>except Exception\<close>, so the function
  returns in every case; the second component is the line it prints last. The
  assignment to \<open>ktc_source_used\<close> has no \<open>global\<close> declaration and binds a local name.
\<close>

definition update_ktc :: "error + (pystr \<times> int) list \<Rightarrow> bot \<Rightarrow> bot \<times> ktc_log" where
  "update_ktc resp s =
     (case fetch_dp_values resp of
        Inl e \<Rightarrow> (s, ErrorLoading e)
      | Inr dp \<Rightarrow>
          if dp \<noteq> [] then
            let s1 = s\<lparr>ktc_values := []\<rparr>;
                s2 = s1\<lparr>ktc_values := dict_update (ktc_values s1) dp\<rparr>;
                local_ktc_source_used = ''DynastyProcess CSV''
            in (case save_ktc_to_db (ktc_values s2) (db s2) of
                  Inl e \<Rightarrow> (s2, ErrorLoading e)
                | Inr d' \<Rightarrow> (s2\<lparr>db := d'\<rparr>, Loaded (length dp)))
          else (s, NoValuesFound))"

definition ktcsource :: "bot \<Rightarrow> string" where
  "ktcsource s = ktc_source_used s"

section \<open>Name resolution\<close>

text \<open>
  \<open>str.strip()\<close> removes leading and trailing white space: the code points for which
  \<open>str.isspace()\<close> holds, which are the ones below.
\<close>

definition isspace :: "int \<Rightarrow> bool" where
  "isspace c \<longleftrightarrow>
     (9 \<le> c \<and> c \<le> 13) \<or> (28 \<le> c \<and> c \<le> 32) \<or> c = 133 \<or> c = 160 \<or> c = 5760
     \<or> (8192 \<le> c \<and> c \<le> 8202) \<or> c = 8232 \<or> c = 8233 \<or> c = 8239 \<or> c = 8287
     \<or> c = 12288"

definition strip :: "pystr \<Rightarrow> pystr" where
  "strip s = rev (dropWhile isspace (rev (dropWhile isspace s)))"

subsection \<open>The matcher of \<open>difflib\<close>\<close>

text \<open>
  \<open>get_close_matches\<close> is Python's, with a \<open>SequenceMatcher\<close> that has no junk function
  and \<open>autojunk\<close> on. When \<open>b\<close> has 200 elements or more, the elements that occur in it
  more than \<open>len(b) // 100 + 1\<close> times are popular and are left out of the index \<open>b2j\<close>.
\<close>

definition popular_elements :: "'a list \<Rightarrow> 'a list" where
  "popular_elements b =
     (let n = length b in
      if n \<ge> 200 then
        let ntest = n div 100 + 1
        in filter (\<lambda>elt. count_list b elt > ntest) (remdups b)
      else [])"

text \<open>The number of leading positions at which two lists agree; and the same where the
  agreeing element must also be in \<open>b2j\<close>, that is, not popular.\<close>

fun common_prefix :: "'a list \<Rightarrow> 'a list \<Rightarrow> nat" where
  "common_prefix (x # xs) (y # ys) = (if x = y then Suc (common_prefix xs ys) else 0)"
| "common_prefix _ _ = 0"

fun indexed_prefix :: "'a list \<Rightarrow> 'a list \<Rightarrow> 'a list \<Rightarrow> nat" where
  "indexed_prefix bpopular (x # xs) (y # ys) =
     (if x = y \<and> y \<notin> set bpopular then Suc (indexed_prefix bpopular xs ys) else 0)"
| "indexed_prefix bpopular _ _ = 0"

text \<open>
  The main loop of \<open>find_longest_match\<close>, on the whole of \<open>a\<close> and \<open>b\<close> (the recursion
  below passes the slices): the longest block of matching elements of \<open>b2j\<close>, the one
  starting earliest in \<open>a\<close> and then earliest in \<open>b\<close>.
\<close>

definition longest_indexed_block :: "'a list \<Rightarrow> 'a list \<Rightarrow> 'a list \<Rightarrow> nat \<times> nat \<times> nat" where
  "longest_indexed_block bpopular a b =
     fold (\<lambda>(i, j) (besti, bestj, bestsize).
             let k = indexed_prefix bpopular (drop i a) (drop j b)
             in if k > bestsize then (i, j, k) else (besti, bestj, bestsize))
          (List.product [0..<length a] [0..<length b]) (0, 0, 0)"

text \<open>
  \<open>find_longest_match\<close>: the block of the main loop is extended by matching elements,
  popular or not, first backwards and then forwards. With no junk function the two
  loops over junk elements do nothing.
\<close>

definition find_longest_match :: "'a list \<Rightarrow> 'a list \<Rightarrow> 'a list \<Rightarrow> nat \<times> nat \<times> nat" where
  "find_longest_match bpopular a b =
     (case longest_indexed_block bpopular a b of
        (besti, bestj, bestsize) \<Rightarrow>
          let back = common_prefix (rev (take besti a)) (rev (take bestj b));
              i = besti - back;
              j = bestj - back;
              k = bestsize + back;
              forth = common_prefix (drop (i + k) a) (drop (j + k) b)
          in (i, j, k + forth))"

lemma common_prefix_le: "common_prefix xs ys \<le> length xs"
  by (induction xs ys rule: common_prefix.induct) auto

lemma indexed_prefix_le: "indexed_prefix bpopular xs ys \<le> length xs"
  by (induction bpopular xs ys rule: indexed_prefix.induct) auto

lemma longest_indexed_block_fold_bound:
  "besti + bestsize \<le> length a \<Longrightarrow>
   fold (\<lambda>(i, j) (besti, bestj, bestsize).
           let k = indexed_prefix bpopular (drop i a) (drop j b)
           in if k > bestsize then (i, j, k) else (besti, bestj, bestsize))
        ps (besti, bestj, bestsize) = (i', j', k') \<Longrightarrow>
   \<forall>p \<in> set ps. fst p \<le> length a \<Longrightarrow> i' + k' \<le> length a"
proof (induction ps arbitrary: besti bestj bestsize)
  case Nil
  then show ?case by simp
next
  case (Cons p ps)
  obtain i j where p: "p = (i, j)" by (cases p)
  let ?k = "indexed_prefix bpopular (drop i a) (drop j b)"
  have i: "i \<le> length a" using Cons.prems(3) p by simp
  have "?k \<le> length a - i" using indexed_prefix_le [of bpopular "drop i a" "drop j b"] by simp
  then have ik: "i + ?k \<le> length a" using i by simp
  have rest: "\<forall>p \<in> set ps. fst p \<le> length a" using Cons.prems(3) by simp
  show ?case
  proof (cases "?k > bestsize")
    case True
    then show ?thesis using Cons.IH [OF ik _ rest] Cons.prems(2) p by simp
  next
    case False
    then show ?thesis using Cons.IH [OF Cons.prems(1) _ rest] Cons.prems(2) p by simp
  qed
qed

lemma longest_indexed_block_bound:
  "longest_indexed_block bpopular a b = (i, j, k) \<Longrightarrow> i + k \<le> length a"
  unfolding longest_indexed_block_def
  by (rule longest_indexed_block_fold_bound [where besti = 0 and bestsize = 0]) auto

lemma find_longest_match_bound:
  assumes "find_longest_match bpopular a b = (i, j, k)"
  shows "i + k \<le> length a"
proof -
  obtain bi bj bk where f: "longest_indexed_block bpopular a b = (bi, bj, bk)"
    by (cases "longest_indexed_block bpopular a b")
  define m where "m = common_prefix (rev (take bi a)) (rev (take bj b))"
  define n where
    "n = common_prefix (drop (bi - m + (bk + m)) a) (drop (bj - m + (bk + m)) b)"
  have fb: "bi + bk \<le> length a" by (rule longest_indexed_block_bound [OF f])
  have "m \<le> length (rev (take bi a))" unfolding m_def by (rule common_prefix_le)
  then have m: "m \<le> bi" by simp
  have "n \<le> length (drop (bi - m + (bk + m)) a)"
    unfolding n_def by (rule common_prefix_le)
  then have n: "n \<le> length a - (bi + bk)" using m by simp
  have "find_longest_match bpopular a b = (bi - m, bj - m, bk + m + n)"
    by (simp add: find_longest_match_def f Let_def m_def n_def)
  then have "i = bi - m" "k = bk + m + n" using assms by simp_all
  then show ?thesis using fb m n by arith
qed

text \<open>
  The number of matched elements: the sum of the sizes of \<open>get_matching_blocks\<close>, which
  takes the longest match and recurs on the slices to its left and to its right.
\<close>

function matching :: "'a list \<Rightarrow> 'a list \<Rightarrow> 'a list \<Rightarrow> nat" where
  "matching bpopular a b =
     (case find_longest_match bpopular a b of
        (i, j, k) \<Rightarrow>
          if k = 0 then 0
          else k + matching bpopular (take i a) (take j b)
                 + matching bpopular (drop (i + k) a) (drop (j + k) b))"
  by pat_completeness auto
termination
proof (relation "measure (\<lambda>(bpopular, a, b). length a)")
  show "wf (measure (\<lambda>(bpopular, a, b). length a))" by simp
next
  fix bpopular a b :: "'a list" and i y j k
  assume "(i, y) = find_longest_match bpopular a b" "(j, k) = y" "k \<noteq> 0"
  then have "find_longest_match bpopular a b = (i, j, k)" by simp
  from find_longest_match_bound [OF this] \<open>k \<noteq> 0\<close>
  show "((bpopular, take i a, take j b), bpopular, a, b)
          \<in> measure (\<lambda>(bpopular, a, b). length a)"
    and "((bpopular, drop (i + k) a, drop (j + k) b), bpopular, a, b)
          \<in> measure (\<lambda>(bpopular, a, b). length a)"
    by simp_all
qed

text \<open>
  \<open>ratio\<close> with \<open>a\<close> and \<open>b\<close> the two sequences of the matcher. The quotient is a rational
  number; the float of the source is its rounding, which compares with 0.5 as the
  quotient does.
\<close>

definition ratio :: "'a list \<Rightarrow> 'a list \<Rightarrow> rat" where
  "ratio a b =
     (let matches = matching (popular_elements b) a b; length = length a + length b
      in if length \<noteq> 0 then of_nat (2 * matches) / of_nat length else 1)"

text \<open>\<open>heapq.nlargest(1, result)\<close>: the greatest element, if there is one.\<close>

fun nlargest1 :: "'a::linorder list \<Rightarrow> 'a list" where
  "nlargest1 [] = []"
| "nlargest1 (x # xs) = [fold max xs x]"

text \<open>
  \<open>get_close_matches(word, possibilities, n=1, cutoff=0.5)\<close>. The sequence \<open>a\<close> of the
  matcher is the candidate and \<open>b\<close> the word. The two quick ratios tested first are upper
  bounds of \<open>ratio\<close> and exclude no candidate that passes the test on \<open>ratio\<close>. Pairs of a
  score and a candidate are compared by score, then by candidate.
\<close>

definition get_close_matches :: "pystr \<Rightarrow> pystr list \<Rightarrow> pystr list" where
  "get_close_matches word possibilities =
     (let result = map (\<lambda>x. (ratio x word, x))
                       (filter (\<lambda>x. ratio x word \<ge> 1 / 2) possibilities)
      in map snd (nlargest1 result))"

text \<open>
  \<open>get_ktc_value\<close> reads the globals \<open>ktc_values\<close> and \<open>manual_ktc_overrides\<close> and the
  database, and writes none of them. The result is the pair returned under
  \<open>return_best_match=True\<close>; without the flag the caller receives its first component.
\<close>

definition get_ktc_value :: "bot \<Rightarrow> pystr \<Rightarrow> error + (int \<times> pystr option)" where
  "get_ktc_value s player_name =
     (let name_input = strip player_name;
          name_input = (case map_of manual_ktc_overrides name_input of
                          Some canonical \<Rightarrow> canonical
                        | None \<Rightarrow> name_input)
      in case map_of (ktc_values s) name_input of
           Some v \<Rightarrow> Inr (v, Some name_input)
         | None \<Rightarrow>
             (case get_close_matches name_input (map fst (ktc_values s)) of
                best # _ \<Rightarrow>
                  (case map_of (ktc_values s) best of
                     Some v \<Rightarrow> Inr (v, Some best)
                   | None \<Rightarrow> Inl KeyError)
              | [] \<Rightarrow>
                  (case find_similar_names_in_db name_input (db s) of
                     Inl e \<Rightarrow> Inl e
                   | Inr printed \<Rightarrow> Inr (0, None))))"

section \<open>Trade watcher\<close>

text \<open>
  A transaction of the feed is a JSON object. \<open>txn.get(key)\<close> is \<open>None\<close> for an absent key
  and for a JSON \<open>null\<close>, which is all the source looks at for the id, the type and the
  status. For \<open>adds\<close> and \<open>roster_ids\<close> the source passes a default to \<open>get\<close>, so an absent
  key and a \<open>null\<close> differ.
\<close>

datatype 'a field = Missing | Null | Val 'a

record txn =
  transaction_id :: tid
  ttype :: "string option"
  tstatus :: "string option"
  adds :: "(pid \<times> rid) list field"
  roster_ids :: "rid list field"

text \<open>
  \<open>get_player_name_map\<close>. The directory gives for a player id the \<open>full_name\<close> field of
  its entry. An entry without the key is left out; one whose \<open>full_name\<close> is null is
  kept and gives the name \<open>None\<close>.
\<close>

definition get_player_name_map ::
  "(pid \<rightharpoonup> pystr field) \<Rightarrow> (pid \<rightharpoonup> pystr option)" where
  "get_player_name_map players_json pid =
     (case players_json pid of
        None \<Rightarrow> None
      | Some Missing \<Rightarrow> None
      | Some Null \<Rightarrow> Some None
      | Some (Val full_name) \<Rightarrow> Some (Some full_name))"

text \<open>The decimal digits of an integer, for \<open>f"Team {roster_id}"\<close>.\<close>

fun str_nat :: "nat \<Rightarrow> string" where
  "str_nat n =
     (if n < 10 then [char_of (48 + n)] else str_nat (n div 10) @ [char_of (48 + n mod 10)])"

definition str_int :: "int \<Rightarrow> string" where
  "str_int i = (if i < 0 then CHR ''-'' # str_nat (nat (- i)) else str_nat (nat i))"

text \<open>The dict \<open>reverse\<close>: for each roster id the players it receives, in the order of \<open>adds\<close>.\<close>

definition reverse_adds :: "(pid \<times> rid) list \<Rightarrow> (rid \<rightharpoonup> pid list)" where
  "reverse_adds adds_items =
     fold (\<lambda>(pid, rid) reverse.
             reverse(rid \<mapsto> (case reverse rid of None \<Rightarrow> [] | Some l \<Rightarrow> l) @ [pid]))
          adds_items Map.empty"

text \<open>
  \<open>sum(get_ktc_value(n) for n in names)\<close>; an exception in one lookup ends the sum. For
  a name that is \<open>None\<close> the first statement of \<open>get_ktc_value\<close>, \<open>player_name.strip()\<close>,
  raises \<open>AttributeError\<close>.
\<close>

fun sum_ktc_values :: "bot \<Rightarrow> pystr option list \<Rightarrow> error + int" where
  "sum_ktc_values s [] = Inr 0"
| "sum_ktc_values s (None # ns) = Inl AttributeError"
| "sum_ktc_values s (Some n # ns) =
     (case get_ktc_value s n of
        Inl e \<Rightarrow> Inl e
      | Inr (v, matched) \<Rightarrow>
          (case sum_ktc_values s ns of Inl e \<Rightarrow> Inl e | Inr acc \<Rightarrow> Inr (v + acc)))"

text \<open>The embed handed to \<open>channel.send\<close>.\<close>

record trade_event =
  ev_tid :: tid
  ev_team0 :: string
  ev_team1 :: string
  ev_names0 :: "pystr option list"
  ev_names1 :: "pystr option list"
  ev_v0 :: int
  ev_v1 :: int
  ev_footer :: verdict

text \<open>
  What the \<open>try\<close> block around \<open>channel.send\<close> and the two \<open>add_reaction\<close> calls does:
  all three succeed, or one raises \<open>discord.Forbidden\<close>, or one raises another exception.
\<close>

datatype send_outcome = Sent | Forbidden | SendFailed

record env =
  name_map :: "pid \<rightharpoonup> pystr option"
  channel :: bool
  send :: "trade_event \<Rightarrow> send_outcome"

text \<open>One pass of the loop body for a transaction.\<close>

datatype step = Skipped | Raised error | NoChannel | Attempted trade_event send_outcome

definition announce_txn :: "env \<Rightarrow> bot \<Rightarrow> txn \<Rightarrow> step" where
  "announce_txn e s t =
     (let tid = transaction_id t in
      if ttype t \<noteq> Some ''trade'' \<or> tstatus t \<noteq> Some ''complete'' then Skipped
      else if tid \<in> known_trade_ids s then Skipped
      else
        case (case adds t of Missing \<Rightarrow> Inr [] | Null \<Rightarrow> Inl AttributeError | Val a \<Rightarrow> Inr a) of
          Inl err \<Rightarrow> Raised err
        | Inr adds_items \<Rightarrow>
            let reverse = reverse_adds adds_items in
            case (case roster_ids t of
                    Missing \<Rightarrow> Inr [] | Null \<Rightarrow> Inl TypeError | Val r \<Rightarrow> Inr (take 2 r)) of
              Inl err \<Rightarrow> Raised err
            | Inr rosters \<Rightarrow>
                (case rosters of
                   r0 # r1 # _ \<Rightarrow>
                     let t0_ids = (case reverse r0 of None \<Rightarrow> [] | Some l \<Rightarrow> l);
                         t1_ids = (case reverse r1 of None \<Rightarrow> [] | Some l \<Rightarrow> l);
                         t0_names = map (\<lambda>pid. case name_map e pid of
                                                 None \<Rightarrow> Some pid | Some n \<Rightarrow> n) t0_ids;
                         t1_names = map (\<lambda>pid. case name_map e pid of
                                                 None \<Rightarrow> Some pid | Some n \<Rightarrow> n) t1_ids
                     in (case sum_ktc_values s t0_names of
                           Inl err \<Rightarrow> Raised err
                         | Inr v0 \<Rightarrow>
                             (case sum_ktc_values s t1_names of
                                Inl err \<Rightarrow> Raised err
                              | Inr v1 \<Rightarrow>
                                  let team0 = (case map_of (user_map s) r0 of
                                                 None \<Rightarrow> ''Team '' @ str_int r0 | Some n \<Rightarrow> n);
                                      team1 = (case map_of (user_map s) r1 of
                                                 None \<Rightarrow> ''Team '' @ str_int r1 | Some n \<Rightarrow> n);
                                      emb = \<lparr> ev_tid = tid, ev_team0 = team0, ev_team1 = team1,
                                                ev_names0 = t0_names, ev_names1 = t1_names,
                                                ev_v0 = v0, ev_v1 = v1,
                                                ev_footer = result_text team0 team1 v0 v1 \<rparr>
                                  in if \<not> channel e then NoChannel
                                     else Attempted emb (send e emb)))
                 | _ \<Rightarrow> Skipped))"

text \<open>
  How a cycle ends: the loop runs to the end of the feed, or \<open>return\<close>s because the
  channel is not found, or an exception leaves the function.
\<close>

datatype cycle_end = Completed | Returned | Failed error

text \<open>
  The loop over the feed. The result is the list of embeds handed to \<open>channel.send\<close>, each
  with what became of it, the state, and how the cycle ended. Only after a send and its
  reactions succeeded is the id added to \<open>known_trade_ids\<close>.
\<close>

fun announce_loop ::
  "env \<Rightarrow> bot \<Rightarrow> txn list \<Rightarrow> (trade_event \<times> send_outcome) list \<times> bot \<times> cycle_end" where
  "announce_loop e s [] = ([], s, Completed)"
| "announce_loop e s (t # rest) =
     (case announce_txn e s t of
        Skipped \<Rightarrow> announce_loop e s rest
      | Raised err \<Rightarrow> ([], s, Failed err)
      | NoChannel \<Rightarrow> ([], s, Returned)
      | Attempted emb outcome \<Rightarrow>
          let s' = (if outcome = Sent
                    then s\<lparr>known_trade_ids := insert (transaction_id t) (known_trade_ids s)\<rparr>
                    else s)
          in (case announce_loop e s' rest of
                (evs, s'', r) \<Rightarrow> ((emb, outcome) # evs, s'', r)))"

text \<open>
  \<open>fetch_and_announce_trades\<close>. The feed argument is what the two \<open>fetch_json\<close> calls
  give: an exception, or the transactions of the week and the player directory. The
  week only selects the URL of the feed.
\<close>

definition fetch_and_announce_trades ::
  "(trade_event \<Rightarrow> send_outcome) \<Rightarrow> bool \<Rightarrow> bot \<Rightarrow>
   error + (txn list \<times> (pid \<rightharpoonup> pystr field)) \<Rightarrow>
   (trade_event \<times> send_outcome) list \<times> bot \<times> cycle_end" where
  "fetch_and_announce_trades sender chan s feed =
     (case feed of
        Inl err \<Rightarrow> ([], s, Failed err)
      | Inr (transactions, player_data) \<Rightarrow>
          let nm = get_player_name_map player_data
          in announce_loop \<lparr> name_map = nm, channel = chan, send = sender \<rparr> s transactions)"

text \<open>
  The transactions that pass the two \<open>continue\<close> tests at the head of the loop body, for a
  set \<open>K\<close> of known ids.
\<close>

definition qualifies :: "tid set \<Rightarrow> txn \<Rightarrow> bool" where
  "qualifies K t \<longleftrightarrow>
     ttype t = Some ''trade'' \<and> tstatus t = Some ''complete'' \<and> transaction_id t \<notin> K"

section \<open>Example inputs\<close>

text \<open>A state with two valued players and one named roster, over an empty store.\<close>

definition example_bot :: bot where
  "example_bot = (initial_bot (Players []))
     \<lparr> ktc_values := [(py ''Xavier'', 500), (py ''Yan'', 2000)],
       user_map := [(1, ''Owls'')] \<rparr>"

text \<open>
  A completed trade between roster 1, which receives Xavier, and roster 2, which
  receives Yan, and variants of it: already announced, a waiver, with \<open>adds\<close> null.
\<close>

definition example_trade :: txn where
  "example_trade = \<lparr> transaction_id = Some ''t2'', ttype = Some ''trade'',
     tstatus = Some ''complete'', adds = Val [(py ''p1'', 1), (py ''p2'', 2)],
     roster_ids = Val [1, 2] \<rparr>"

definition example_known_trade :: txn where
  "example_known_trade = example_trade\<lparr> transaction_id := Some ''t0'' \<rparr>"

definition example_waiver :: txn where
  "example_waiver = example_trade\<lparr> transaction_id := Some ''t1'', ttype := Some ''waiver'' \<rparr>"

definition example_null_adds :: txn where
  "example_null_adds = example_trade\<lparr> transaction_id := Some ''t3'', adds := Null \<rparr>"

definition example_players :: "pid \<rightharpoonup> pystr field" where
  "example_players = [py ''p1'' \<mapsto> Val (py ''Xavier''), py ''p2'' \<mapsto> Val (py ''Yan'')]"

definition always_sent :: "trade_event \<Rightarrow> send_outcome" where
  "always_sent ev = Sent"

definition never_permitted :: "trade_event \<Rightarrow> send_outcome" where
  "never_permitted ev = Forbidden"

definition example_known_bot :: bot where
  "example_known_bot = example_bot\<lparr> known_trade_ids := {Some ''t0''} \<rparr>"

definition example_env :: env where
  "example_env = \<lparr> name_map = get_player_name_map example_players, channel = True,
     send = never_permitted \<rparr>"

definition example_event :: trade_event where
  "example_event = \<lparr> ev_tid = Some ''t2'', ev_team0 = ''Owls'', ev_team1 = ''Team 2'',
     ev_names0 = [Some (py ''Xavier'')], ev_names1 = [Some (py ''Yan'')],
     ev_v0 = 500, ev_v1 = 2000, ev_footer = Wins ''Team 2'' 1500 \<rparr>"

text \<open>Value tables for the resolver, the last one over a store that raises.\<close>

definition example_cmc_bot :: bot where
  "example_cmc_bot = (initial_bot (Players []))\<lparr> ktc_values := [(py ''CMC'', 5)] \<rparr>"

definition example_mccaffrey_bot :: bot where
  "example_mccaffrey_bot = (initial_bot (Players []))
     \<lparr> ktc_values := [(py ''CMC'', 5), (py ''Christian McCaffrey'', 9000)] \<rparr>"




section \<open>Week clock: properties\<close>

text \<open>
  C5. With the week-2 threshold \<open>T\<close>: a recomputation strictly before \<open>T\<close> leaves the week
  as it is, so the default 1 stays 1; at \<open>T\<close> the week is 2; at \<open>T\<close> plus 8 days it is 3;
  and from \<open>T\<close> on it is 2 plus the whole days elapsed since \<open>T\<close> divided by 7, rounded down.
\<close>

theorem week_derivation:
  "(today < T \<longrightarrow> current_bot_week (update_bot_week T today s) = current_bot_week s)
   \<and> (today < T \<longrightarrow> current_bot_week (update_bot_week T today (initial_bot d)) = 1)
   \<and> current_bot_week (update_bot_week T T s) = 2
   \<and> current_bot_week (update_bot_week T (T + days 8) s) = 3
   \<and> (today \<ge> T \<longrightarrow> current_bot_week (update_bot_week T today s)
         = 2 + timedelta_days (today - T) div 7)"
  by (simp add: update_bot_week_def timedelta_days_def days_def initial_bot_def)

theorem week_derivation_witness:
  "(999999 :: int) < 1000000
   \<and> current_bot_week (update_bot_week 1000000 999999 (initial_bot Unavailable)) = 1
   \<and> (1000000 + days 15 :: int) \<ge> 1000000
   \<and> current_bot_week (update_bot_week 1000000 (1000000 + days 15) (initial_bot Unavailable)) = 4"
  using week_derivation [of 999999 1000000 "initial_bot Unavailable" Unavailable]
    week_derivation [of "1000000 + days 15" 1000000 "initial_bot Unavailable" Unavailable]
  by (simp add: days_def timedelta_days_def)

text \<open>
  C8. A manual override does not outlast every recomputation: one at or after the
  threshold replaces the override by the derived week, one before the threshold leaves
  the override in place.
\<close>

theorem override_not_sticky:
  "(today \<ge> T \<longrightarrow> current_bot_week (update_bot_week T today (forceweek w s))
                    = 2 + timedelta_days (today - T) div 7)
   \<and> (today < T \<longrightarrow> current_bot_week (update_bot_week T today (forceweek w s)) = w)"
  by (simp add: update_bot_week_def forceweek_def)

theorem override_not_sticky_witness:
  "(1000000 + days 15 :: int) \<ge> 1000000
   \<and> current_bot_week (update_bot_week 1000000 (1000000 + days 15)
        (forceweek 9 (initial_bot Unavailable))) = 4
   \<and> (999999 :: int) < 1000000
   \<and> current_bot_week (update_bot_week 1000000 999999
        (forceweek 9 (initial_bot Unavailable))) = 9"
  using override_not_sticky [of 1000000 "1000000 + days 15" 9 "initial_bot Unavailable"]
    override_not_sticky [of 1000000 999999 9 "initial_bot Unavailable"]
  by (simp add: days_def timedelta_days_def)

text \<open>The override 5 is still the week after a recomputation one microsecond before the
  threshold.\<close>

theorem override_persists_counterexample:
  "current_bot_week (update_bot_week 1000000 999999 (forceweek 5 (initial_bot Unavailable))) = 5"
  by (simp add: update_bot_week_def forceweek_def)

section \<open>Value ingestion: properties\<close>

lemma dict_update_nonempty: "e \<noteq> [] \<or> d \<noteq> [] \<Longrightarrow> dict_update d e \<noteq> []"
proof (induction e arbitrary: d)
  case Nil
  then show ?case by (simp add: dict_update_def)
next
  case (Cons x e)
  obtain k v where x: "x = (k, v)" by (cases x)
  have "AList.update k v d \<noteq> []" by (cases d) auto
  then have "dict_update (AList.update k v d) e \<noteq> []" using Cons.IH by blast
  then show ?case by (simp add: dict_update_def x)
qed

lemma update_fresh: "k \<notin> fst ` set d \<Longrightarrow> AList.update k v d = d @ [(k, v)]"
  by (induction d) auto

lemma dict_update_distinct_append:
  "distinct (map fst (d @ e)) \<Longrightarrow> dict_update d e = d @ e"
proof (induction e arbitrary: d)
  case Nil
  then show ?case by (simp add: dict_update_def)
next
  case (Cons x e)
  obtain k v where x: "x = (k, v)" by (cases x)
  have fresh: "k \<notin> fst ` set d" using Cons.prems x by auto
  have "distinct (map fst ((d @ [(k, v)]) @ e))" using Cons.prems x by simp
  from Cons.IH [OF this] show ?case
    by (simp add: dict_update_def x update_fresh [OF fresh])
qed

lemma dict_update_distinct:
  "distinct (map fst d) \<Longrightarrow> distinct (map fst (dict_update d e))"
proof (induction e arbitrary: d)
  case Nil
  then show ?case by (simp add: dict_update_def)
next
  case (Cons x e)
  obtain k v where x: "x = (k, v)" by (cases x)
  have "distinct (map fst (AList.update k v d))" using Cons.prems by (simp add: distinct_update)
  from Cons.IH [OF this] show ?case by (simp add: dict_update_def x)
qed

lemma dict_update_idem: "dict_update [] (dict_update [] rows) = dict_update [] rows"
  using dict_update_distinct_append [of "[]" "dict_update [] rows"]
    dict_update_distinct [of "[]" rows] by simp

lemma map_of_dict_update: "map_of (dict_update d e) = map_of d ++ map_of (rev e)"
proof (induction e arbitrary: d)
  case Nil
  then show ?case by (simp add: dict_update_def)
next
  case (Cons x e)
  obtain k v where x: "x = (k, v)" by (cases x)
  have "map_of (dict_update d (x # e)) = map_of (dict_update (AList.update k v d) e)"
    by (simp add: dict_update_def x)
  also have "\<dots> = (map_of d)(k \<mapsto> v) ++ map_of (rev e)"
    by (simp only: Cons.IH update_conv')
  also have "\<dots> = map_of d ++ map_of (rev (x # e))"
    by (rule ext) (simp add: x map_add_def split: option.splits)
  finally show ?case .
qed

text \<open>
  C2. If the fetch raises, or the parse gives no pair, \<open>update_ktc\<close> returns the state it
  was given (the table in memory and the store with it) and reports the failure in its
  log line; the function has no exceptional result. If the parse gives at least one pair,
  the table in memory becomes the dict of the parsed pairs.
\<close>

theorem ingestion_atomicity:
  "((resp = Inl err \<or> resp = Inr []) \<longrightarrow>
      fst (update_ktc resp s) = s
      \<and> snd (update_ktc resp s) = (case resp of Inl e \<Rightarrow> ErrorLoading e | Inr _ \<Rightarrow> NoValuesFound))
   \<and> (resp = Inr rows \<and> rows \<noteq> [] \<longrightarrow>
      ktc_values (fst (update_ktc resp s)) = dict_update [] rows
      \<and> map_of (ktc_values (fst (update_ktc resp s))) = map_of (rev rows))"
proof (intro conjI impI)
  assume "resp = Inl err \<or> resp = Inr []"
  then show "fst (update_ktc resp s) = s"
    by (auto simp: update_ktc_def fetch_dp_values_def dict_update_def)
next
  assume "resp = Inl err \<or> resp = Inr []"
  then show "snd (update_ktc resp s) = (case resp of Inl e \<Rightarrow> ErrorLoading e | Inr _ \<Rightarrow> NoValuesFound)"
    by (auto simp: update_ktc_def fetch_dp_values_def dict_update_def)
next
  assume a: "resp = Inr rows \<and> rows \<noteq> []"
  then have ne: "dict_update [] rows \<noteq> []" using dict_update_nonempty [of rows "[]"] by simp
  show kv: "ktc_values (fst (update_ktc resp s)) = dict_update [] rows"
    using a ne
    by (simp add: update_ktc_def fetch_dp_values_def Let_def dict_update_idem split: sum.splits)
  show "map_of (ktc_values (fst (update_ktc resp s))) = map_of (rev rows)"
    by (simp add: kv map_of_dict_update)
qed

theorem ingestion_atomicity_witness:
  "fst (update_ktc (Inl FetchError) example_bot) = example_bot
   \<and> snd (update_ktc (Inl FetchError) example_bot) = ErrorLoading FetchError
   \<and> fst (update_ktc (Inr []) example_bot) = example_bot
   \<and> snd (update_ktc (Inr []) example_bot) = NoValuesFound
   \<and> ktc_values (fst (update_ktc
         (Inr [(py ''Yan'', 7), (py ''Zed'', 8), (py ''Yan'', 9)]) example_bot))
       = [(py ''Yan'', 9), (py ''Zed'', 8)]"
  using ingestion_atomicity [of "Inl FetchError" FetchError example_bot "[]"]
    ingestion_atomicity [of "Inr []" FetchError example_bot "[]"]
    ingestion_atomicity [of "Inr [(py ''Yan'', 7), (py ''Zed'', 8), (py ''Yan'', 9)]"
      FetchError example_bot "[(py ''Yan'', 7), (py ''Zed'', 8), (py ''Yan'', 9)]"]
  by (simp add: dict_update_def)

text \<open>
  C10. \<open>update_ktc\<close> never changes the global \<open>ktc_source_used\<close>: after any refresh from
  the initial state the label that \<open>ktcsource\<close> reports is still \<open>unknown\<close>.
\<close>

theorem source_label_unchanged:
  "ktc_source_used (fst (update_ktc resp s)) = ktc_source_used s
   \<and> ktcsource (fst (update_ktc resp (initial_bot d))) = ''unknown''"
  by (simp add: update_ktc_def ktcsource_def initial_bot_def Let_def split: sum.splits)

section \<open>Trade watcher: properties\<close>

lemmas example_defs = example_trade_def example_known_trade_def example_waiver_def
  example_null_adds_def example_players_def always_sent_def
  never_permitted_def example_known_bot_def example_bot_def initial_bot_def

lemma announce_txn_Attempted:
  assumes "announce_txn e s t = Attempted ev out"
  shows "ttype t = Some ''trade''" "tstatus t = Some ''complete''"
    "transaction_id t \<notin> known_trade_ids s" "ev_tid ev = transaction_id t"
    "ev_footer ev = result_text (ev_team0 ev) (ev_team1 ev) (ev_v0 ev) (ev_v1 ev)"
    "channel e" "out = send e ev"
  using assms
  by (auto simp: announce_txn_def Let_def
      split: if_splits field.splits sum.splits list.splits)

lemma announce_txn_not_qualifies:
  "\<not> qualifies K t \<Longrightarrow> K \<subseteq> known_trade_ids s \<Longrightarrow> announce_txn e s t = Skipped"
  by (cases "transaction_id t \<in> known_trade_ids s")
    (auto simp: announce_txn_def qualifies_def Let_def)

lemma announce_loop_known_mono:
  "announce_loop e s ts = (evs, s', r) \<Longrightarrow> known_trade_ids s \<subseteq> known_trade_ids s'"
proof (induction ts arbitrary: s evs s' r)
  case Nil
  then show ?case by simp
next
  case (Cons t ts)
  show ?case
  proof (cases "announce_txn e s t")
    case Skipped
    then show ?thesis using Cons by simp
  next
    case (Raised err)
    then show ?thesis using Cons.prems by simp
  next
    case NoChannel
    then show ?thesis using Cons.prems by simp
  next
    case (Attempted ev out)
    let ?s1 = "if out = Sent
       then s\<lparr>known_trade_ids := insert (transaction_id t) (known_trade_ids s)\<rparr> else s"
    obtain evs1 where "announce_loop e ?s1 ts = (evs1, s', r)"
      using Cons.prems Attempted by (auto simp: Let_def split: prod.splits)
    from Cons.IH [OF this] show ?thesis by (auto split: if_splits)
  qed
qed

lemma announce_loop_events:
  "announce_loop e s ts = (evs, s', r) \<Longrightarrow> (ev, out) \<in> set evs \<Longrightarrow>
   \<exists>t \<in> set ts. ev_tid ev = transaction_id t \<and> qualifies (known_trade_ids s) t
     \<and> ev_footer ev = result_text (ev_team0 ev) (ev_team1 ev) (ev_v0 ev) (ev_v1 ev)"
proof (induction ts arbitrary: s evs s' r)
  case Nil
  then show ?case by simp
next
  case (Cons t ts)
  show ?case
  proof (cases "announce_txn e s t")
    case Skipped
    then show ?thesis using Cons by auto
  next
    case (Raised err)
    then show ?thesis using Cons.prems by simp
  next
    case NoChannel
    then show ?thesis using Cons.prems by simp
  next
    case (Attempted ev1 out1)
    let ?s1 = "if out1 = Sent
       then s\<lparr>known_trade_ids := insert (transaction_id t) (known_trade_ids s)\<rparr> else s"
    obtain evs1 where rest: "announce_loop e ?s1 ts = (evs1, s', r)"
      and evs: "evs = (ev1, out1) # evs1"
      using Cons.prems(1) Attempted by (auto simp: Let_def split: prod.splits)
    have sub: "known_trade_ids s \<subseteq> known_trade_ids ?s1" by auto
    show ?thesis
    proof (cases "(ev, out) = (ev1, out1)")
      case True
      then show ?thesis
        using announce_txn_Attempted [OF Attempted] by (simp add: qualifies_def)
    next
      case False
      then have "(ev, out) \<in> set evs1" using Cons.prems(2) evs by auto
      from Cons.IH [OF rest this] sub show ?thesis
        by (auto simp: qualifies_def)
    qed
  qed
qed

lemma announce_loop_filter:
  "K \<subseteq> known_trade_ids s \<Longrightarrow>
   announce_loop e s (filter (qualifies K) ts) = announce_loop e s ts"
proof (induction ts arbitrary: s)
  case Nil
  then show ?case by simp
next
  case (Cons t ts)
  show ?case
  proof (cases "qualifies K t")
    case False
    then show ?thesis
      using Cons announce_txn_not_qualifies [OF False Cons.prems] by simp
  next
    case True
    let ?s1 = "s\<lparr>known_trade_ids := insert (transaction_id t) (known_trade_ids s)\<rparr>"
    have "K \<subseteq> known_trade_ids ?s1" using Cons.prems by auto
    then have "announce_loop e ?s1 (filter (qualifies K) ts) = announce_loop e ?s1 ts"
      by (rule Cons.IH)
    then show ?thesis
      using True Cons.IH [OF Cons.prems] by (simp split: step.splits)
  qed
qed

text \<open>
  C1. A transaction of the feed whose id is already in \<open>known_trade_ids\<close> has no embed
  sent for it, and its id stays in the set. An embed is only sent for a transaction of
  type \<open>trade\<close> and status \<open>complete\<close>. The transactions that fail a test are skipped
  without effect: the cycle on the feed and the cycle on the feed without them give the
  same embeds, state and end.
\<close>

theorem idempotent_detection:
  assumes "fetch_and_announce_trades sender chan s (Inr (ts, pd)) = (evs, s', r)"
  shows "(\<forall>t \<in> set ts. transaction_id t \<in> known_trade_ids s \<longrightarrow>
            transaction_id t \<notin> ev_tid ` fst ` set evs \<and> transaction_id t \<in> known_trade_ids s')
     \<and> (\<forall>(ev, out) \<in> set evs. \<exists>t \<in> set ts. transaction_id t = ev_tid ev
            \<and> ttype t = Some ''trade'' \<and> tstatus t = Some ''complete'')
     \<and> fetch_and_announce_trades sender chan s
          (Inr (filter (qualifies (known_trade_ids s)) ts, pd)) = (evs, s', r)"
proof -
  let ?e = "\<lparr> name_map = get_player_name_map pd, channel = chan, send = sender \<rparr>"
  have loop: "announce_loop ?e s ts = (evs, s', r)"
    using assms by (simp add: fetch_and_announce_trades_def)
  have mono: "known_trade_ids s \<subseteq> known_trade_ids s'"
    by (rule announce_loop_known_mono [OF loop])
  have ev: "\<exists>t \<in> set ts. ev_tid ev = transaction_id t \<and> qualifies (known_trade_ids s) t"
    if "(ev, out) \<in> set evs" for ev out
    using announce_loop_events [OF loop that] by blast
  have a: "\<forall>t \<in> set ts. transaction_id t \<in> known_trade_ids s \<longrightarrow>
            transaction_id t \<notin> ev_tid ` fst ` set evs \<and> transaction_id t \<in> known_trade_ids s'"
    using ev mono by (fastforce simp: qualifies_def)
  have b: "\<forall>(ev, out) \<in> set evs. \<exists>t \<in> set ts. transaction_id t = ev_tid ev
            \<and> ttype t = Some ''trade'' \<and> tstatus t = Some ''complete''"
    using ev by (fastforce simp: qualifies_def)
  have c: "fetch_and_announce_trades sender chan s
          (Inr (filter (qualifies (known_trade_ids s)) ts, pd)) = (evs, s', r)"
    using loop announce_loop_filter [of "known_trade_ids s" s ?e ts]
    by (simp add: fetch_and_announce_trades_def)
  from a b c show ?thesis by blast
qed

theorem idempotent_detection_witness:
  "length (fst (fetch_and_announce_trades always_sent True example_known_bot
      (Inr ([example_known_trade, example_waiver, example_trade], example_players)))) = 1
   \<and> transaction_id example_known_trade \<in> known_trade_ids example_known_bot
   \<and> transaction_id example_known_trade \<notin> ev_tid ` fst ` set (fst
        (fetch_and_announce_trades always_sent True example_known_bot
          (Inr ([example_known_trade, example_waiver, example_trade], example_players))))
   \<and> transaction_id example_known_trade \<in> known_trade_ids (fst (snd
        (fetch_and_announce_trades always_sent True example_known_bot
          (Inr ([example_known_trade, example_waiver, example_trade], example_players)))))"
proof -
  let ?run = "fetch_and_announce_trades always_sent True example_known_bot
      (Inr ([example_known_trade, example_waiver, example_trade], example_players))"
  have h: "?run = (fst ?run, fst (snd ?run), snd (snd ?run))" by simp
  have n: "length (fst ?run) = 1" by code_simp
  have k: "transaction_id example_known_trade \<in> known_trade_ids example_known_bot"
    by (simp add: example_defs)
  show ?thesis
    using idempotent_detection [OF h] n k by simp
qed

text \<open>
  C6. With \<open>diff\<close> the value of side A minus the value of side B: the verdict is fair if
  \<open>|diff| < 200\<close>, and otherwise names the side with the larger value as the winner by
  \<open>|diff|\<close>; 1000 against 850 is fair and 1000 against 700 is a win of side A by 300.
  Every embed sent in a cycle carries the verdict of its two sides and values.
\<close>

theorem fairness_verdict:
  "(\<bar>v0 - v1\<bar> < 200 \<longrightarrow> result_text team0 team1 v0 v1 = Fair)
   \<and> (\<bar>v0 - v1\<bar> \<ge> 200 \<and> v0 > v1 \<longrightarrow> result_text team0 team1 v0 v1 = Wins team0 (v0 - v1))
   \<and> (\<bar>v0 - v1\<bar> \<ge> 200 \<and> v1 > v0 \<longrightarrow> result_text team0 team1 v0 v1 = Wins team1 (v1 - v0))
   \<and> result_text team0 team1 1000 850 = Fair
   \<and> result_text team0 team1 1000 700 = Wins team0 300
   \<and> (\<forall>(ev, out) \<in> set (fst (announce_loop e s ts)).
        ev_footer ev = result_text (ev_team0 ev) (ev_team1 ev) (ev_v0 ev) (ev_v1 ev))"
proof -
  have "ev_footer ev = result_text (ev_team0 ev) (ev_team1 ev) (ev_v0 ev) (ev_v1 ev)"
    if "(ev, out) \<in> set (fst (announce_loop e s ts))" for ev out
    using announce_loop_events [of e s ts "fst (announce_loop e s ts)"
        "fst (snd (announce_loop e s ts))" "snd (snd (announce_loop e s ts))" ev out] that
    by auto
  then show ?thesis by (auto simp: result_text_def Let_def)
qed

theorem fairness_verdict_witness:
  "\<bar>1000 - 850 :: int\<bar> < 200 \<and> result_text ''A'' ''B'' 1000 850 = Fair
   \<and> \<bar>500 - 2000 :: int\<bar> \<ge> 200 \<and> (2000 :: int) > 500
   \<and> result_text ''A'' ''B'' 500 2000 = Wins ''B'' 1500
   \<and> \<bar>1000 - 700 :: int\<bar> \<ge> 200 \<and> (1000 :: int) > 700
   \<and> result_text ''A'' ''B'' 1000 700 = Wins ''A'' 300
   \<and> (example_event, Forbidden) \<in> set (fst (announce_loop example_env example_bot [example_trade]))
   \<and> ev_footer example_event = result_text ''Owls'' ''Team 2'' 500 2000"
proof -
  have run: "fst (announce_loop example_env example_bot [example_trade])
      = [(example_event, Forbidden)]"
    by code_simp
  show ?thesis
    using fairness_verdict [of 1000 850 "''A''" "''B''" example_env example_bot "[example_trade]"]
      fairness_verdict [of 500 2000 "''A''" "''B''" example_env example_bot "[example_trade]"]
      fairness_verdict [of 1000 700 "''A''" "''B''" example_env example_bot "[example_trade]"]
    by (simp add: run example_event_def del: announce_loop.simps)
qed

text \<open>
  C7. A failure raised while processing one transaction must not keep the remaining
  transactions of the cycle from being processed and announced. The code does not do
  that: a completed trade whose \<open>adds\<close> is null ends the cycle with \<open>AttributeError\<close>
  before the trade after it in the feed is looked at, and no embed is sent, though the
  second trade alone is announced.
\<close>

theorem null_adds_aborts_cycle:
  "fetch_and_announce_trades always_sent True example_bot
     (Inr ([example_null_adds, example_trade], example_players))
     = ([], example_bot, Failed AttributeError)
   \<and> length (fst (fetch_and_announce_trades always_sent True example_bot
        (Inr ([example_trade], example_players)))) = 1"
  by code_simp

section \<open>Name resolution: properties\<close>

lemma override_table:
  "\<forall>(k, c) \<in> set manual_ktc_overrides.
     strip k = k \<and> map_of manual_ktc_overrides k = Some c
     \<and> strip c = c \<and> map_of manual_ktc_overrides c = None"
  by code_simp

lemma override_keys:
  "(k, c) \<in> set manual_ktc_overrides \<Longrightarrow>
   strip k = k \<and> map_of manual_ktc_overrides k = Some c
   \<and> strip c = c \<and> map_of manual_ktc_overrides c = None"
  using override_table by blast

text \<open>
  C3. For \<open>CMC\<close> and every key of the override table, the mapped canonical form is
  substituted before any matching against the value table: the result is that of the
  canonical form, whether or not the key itself is in the table, and when the canonical
  form is a key of the table the result is its value and the canonical form.
\<close>

theorem override_precedence:
  assumes "(k, c) \<in> set manual_ktc_overrides"
  shows "get_ktc_value s k = get_ktc_value s c
     \<and> (map_of (ktc_values s) c = Some v \<longrightarrow> get_ktc_value s k = Inr (v, Some c))"
  using override_keys [OF assms]
  by (simp add: get_ktc_value_def)

theorem override_precedence_witness:
  "(py ''CMC'', py ''Christian McCaffrey'') \<in> set manual_ktc_overrides
   \<and> map_of (ktc_values example_mccaffrey_bot) (py ''Christian McCaffrey'') = Some 9000
   \<and> get_ktc_value example_mccaffrey_bot (py ''CMC'')
       = Inr (9000, Some (py ''Christian McCaffrey''))"
proof -
  have h1: "(py ''CMC'', py ''Christian McCaffrey'') \<in> set manual_ktc_overrides"
    by (simp add: manual_ktc_overrides_def)
  have h2: "map_of (ktc_values example_mccaffrey_bot) (py ''Christian McCaffrey'') = Some 9000"
    by (simp add: example_mccaffrey_bot_def)
  from override_precedence [OF h1, of example_mccaffrey_bot 9000] h1 h2
  show ?thesis by blast
qed

text \<open>With \<open>CMC\<close> the only key of the value table, \<open>CMC\<close> resolves to no name at all.\<close>

theorem override_precedence_counterexample:
  "map_of (ktc_values example_cmc_bot) (py ''CMC'') = Some 5
   \<and> get_ktc_value example_cmc_bot (py ''CMC'') = Inr (0, None)"
  by code_simp











end
